theory Spec2Isabelle
  imports Complex_Main "HOL-Library.Word"
begin

unbundle bit_operations_syntax

section \<open>The BAR archive reader and the MDLX bone decoder of mdlx_importer.py\<close>

text \<open>
  The development embeds the binary decoder of \<^verbatim>\<open>blender_addons/mdlx_importer.py\<close>:
  the classes \<^verbatim>\<open>BarEntry\<close>, \<^verbatim>\<open>BarFile\<close>, \<^verbatim>\<open>MdlxModel\<close>, \<^verbatim>\<open>MdlxModel.Bone\<close> and \<^verbatim>\<open>MdlxFile\<close>.
  A Python \<^verbatim>\<open>bytes\<close> object is a list of 8-bit words. The integers that \<^verbatim>\<open>struct\<close> unpacks
  from unsigned formats are never negative and are natural numbers here; the signed
  parent field is an \<open>int\<close>. An attribute \<^verbatim>\<open>x\<close> of a class \<^verbatim>\<open>C\<close> is the record field \<open>C_x\<close>.
  A value \<open>Inl e\<close> stands for the Python call raising the exception \<open>e\<close> to its caller,
  \<open>Inr v\<close> for the call returning \<open>v\<close>.
\<close>

subsection \<open>Bytes, slices and exceptions\<close>

type_synonym byte = "8 word"
type_synonym bytes = "byte list"

text \<open>The exceptions the decoder can raise: \<^verbatim>\<open>struct.error\<close>, \<^verbatim>\<open>UnicodeDecodeError\<close> and
  \<^verbatim>\<open>ValueError\<close> with its message; \<^verbatim>\<open>OSError\<close> is what opening and reading a file
  raises.\<close>

datatype exn = StructError | UnicodeDecodeError | ValueError string | OSError

text \<open>The Python slice \<^verbatim>\<open>xs[a:b]\<close> for \<open>0 \<le> a\<close> and \<open>0 \<le> b\<close>: both ends are clamped to the
  length of \<open>xs\<close> and the slice is empty when \<open>b \<le> a\<close>; it never raises.\<close>

definition py_slice :: "'a list \<Rightarrow> nat \<Rightarrow> nat \<Rightarrow> 'a list" where
  "py_slice xs a b = take (b - a) (drop a xs)"

text \<open>Sequencing of calls that may raise: the first exception ends the computation.\<close>

definition and_then :: "exn + 'a \<Rightarrow> ('a \<Rightarrow> exn + 'b) \<Rightarrow> exn + 'b" where
  "and_then r k = (case r of Inl e \<Rightarrow> Inl e | Inr v \<Rightarrow> k v)"

subsection \<open>The struct module, little-endian formats\<close>

text \<open>The unsigned little-endian value of a byte string.\<close>

fun le_nat :: "bytes \<Rightarrow> nat" where
  "le_nat [] = 0"
| "le_nat (b # bs) = unat b + 256 * le_nat bs"

text \<open>\<^verbatim>\<open>struct.unpack_from(fmt, buf, pos)\<close> for \<open>0 \<le> pos\<close> raises \<^verbatim>\<open>struct.error\<close> unless the
  buffer holds the whole format from \<open>pos\<close> on. The formats used are \<^verbatim>\<open><I\<close> (4 bytes),
  \<^verbatim>\<open><H\<close> (2 bytes), \<^verbatim>\<open><HH\<close> (4 bytes) and \<^verbatim>\<open><II\<close> (8 bytes).\<close>

definition unpack_from_I :: "bytes \<Rightarrow> nat \<Rightarrow> exn + nat" where
  "unpack_from_I buf pos =
     (if length buf < pos + 4 then Inl StructError
      else Inr (le_nat (py_slice buf pos (pos + 4))))"

definition unpack_from_H :: "bytes \<Rightarrow> nat \<Rightarrow> exn + nat" where
  "unpack_from_H buf pos =
     (if length buf < pos + 2 then Inl StructError
      else Inr (le_nat (py_slice buf pos (pos + 2))))"

definition unpack_from_HH :: "bytes \<Rightarrow> nat \<Rightarrow> exn + (nat \<times> nat)" where
  "unpack_from_HH buf pos =
     (if length buf < pos + 4 then Inl StructError
      else Inr (le_nat (py_slice buf pos (pos + 2)),
                le_nat (py_slice buf (pos + 2) (pos + 4))))"

definition unpack_from_II :: "bytes \<Rightarrow> nat \<Rightarrow> exn + (nat \<times> nat)" where
  "unpack_from_II buf pos =
     (if length buf < pos + 8 then Inl StructError
      else Inr (le_nat (py_slice buf pos (pos + 4)),
                le_nat (py_slice buf (pos + 4) (pos + 8))))"

text \<open>\<^verbatim>\<open>struct.unpack(fmt, bs)\<close> raises \<^verbatim>\<open>struct.error\<close> unless \<open>bs\<close> has exactly the size of
  the format. \<^verbatim>\<open><i\<close> is a two's complement 32-bit integer. \<^verbatim>\<open><f\<close> is an IEEE 754
  single; the Python float it yields is determined by the 32 bits, and it is kept as
  this bit pattern, \<open>f32_value\<close> giving the number it denotes. The patterns are finer
  than the floats: the conversion to a double quiets a signalling NaN, so two NaN
  patterns can stand for the same float. Every pattern that is not a NaN stands for a
  float of its own, and nothing below compares NaNs.\<close>

type_synonym f32 = "32 word"

definition unpack_H :: "bytes \<Rightarrow> exn + nat" where
  "unpack_H bs = (if length bs \<noteq> 2 then Inl StructError else Inr (le_nat bs))"

definition unpack_i :: "bytes \<Rightarrow> exn + int" where
  "unpack_i bs =
     (if length bs \<noteq> 4 then Inl StructError
      else Inr (sint (word_of_nat (le_nat bs) :: 32 word)))"

definition unpack_f :: "bytes \<Rightarrow> exn + f32" where
  "unpack_f bs =
     (if length bs \<noteq> 4 then Inl StructError
      else Inr (word_of_nat (le_nat bs)))"

text \<open>The number an IEEE 754 single denotes: sign bit 31, exponent bits 30 to 23,
  mantissa bits 22 to 0; \<open>None\<close> for the infinities and NaNs (exponent 255). Every
  single is a double, so the Python float has exactly this value.\<close>

definition f32_value :: "f32 \<Rightarrow> real option" where
  "f32_value w =
     (let e = unat (drop_bit 23 w AND 0xFF);
          m = unat (w AND 0x7FFFFF);
          sgn = (if bit w 31 then - 1 else 1 :: real)
      in if e = 255 then None
         else if e = 0 then Some (sgn * real m / 2 ^ 149)
         else Some (sgn * real ((2 ^ 23 + m) * 2 ^ (e - 1)) / 2 ^ 149))"

subsection \<open>io.BytesIO and the read helpers\<close>

text \<open>A \<^verbatim>\<open>BytesIO\<close> stream is its buffer and its position. \<^verbatim>\<open>f.read(n)\<close> returns the at most
  \<open>n\<close> bytes left from the position and advances the position by what it returned.\<close>

type_synonym stream = "bytes \<times> nat"

definition read :: "nat \<Rightarrow> stream \<Rightarrow> bytes \<times> stream" where
  "read n f =
     (let bs = py_slice (fst f) (snd f) (snd f + n)
      in (bs, (fst f, snd f + length bs)))"

definition read_u16 :: "stream \<Rightarrow> exn + (nat \<times> stream)" where
  "read_u16 f = (let (bs, f') = read 2 f in and_then (unpack_H bs) (\<lambda>v. Inr (v, f')))"

definition read_s32 :: "stream \<Rightarrow> exn + (int \<times> stream)" where
  "read_s32 f = (let (bs, f') = read 4 f in and_then (unpack_i bs) (\<lambda>v. Inr (v, f')))"

definition read_f32 :: "stream \<Rightarrow> exn + (f32 \<times> stream)" where
  "read_f32 f = (let (bs, f') = read 4 f in and_then (unpack_f bs) (\<lambda>v. Inr (v, f')))"

subsection \<open>BarEntry and BarFile\<close>

record BarEntry =
  BarEntry_type :: nat
  BarEntry_duplicate :: nat
  BarEntry_name :: string
  BarEntry_offset :: nat
  BarEntry_size :: nat

record BarFile =
  BarFile_entries :: "BarEntry list"
  BarFile_data :: bytes

text \<open>\<^verbatim>\<open>bs.decode('ascii')\<close> raises \<^verbatim>\<open>UnicodeDecodeError\<close> at a byte above 0x7F;
  \<^verbatim>\<open>s.rstrip('\0')\<close> removes the trailing NUL characters.\<close>

definition decode_ascii :: "bytes \<Rightarrow> exn + string" where
  "decode_ascii bs =
     (if list_ex (\<lambda>b. 0x7F < b) bs then Inl UnicodeDecodeError
      else Inr (map (\<lambda>b. char_of (unat b)) bs))"

definition rstrip_nul :: "string \<Rightarrow> string" where
  "rstrip_nul s = rev (dropWhile (\<lambda>c. c = CHR 0x00) (rev s))"

text \<open>One pass of the loop of \<^verbatim>\<open>BarFile.__init__\<close> (lines 53 to 56), at position \<open>pos0\<close>.\<close>

definition read_entry :: "bytes \<Rightarrow> nat \<Rightarrow> exn + BarEntry" where
  "read_entry f pos0 =
     and_then (unpack_from_HH f pos0) (\<lambda>(etype, dup).
     let pos = pos0 + 4 in
     and_then (decode_ascii (py_slice f pos (pos + 4))) (\<lambda>s.
     let name = rstrip_nul s; pos = pos + 4 in
     and_then (unpack_from_II f pos) (\<lambda>(off, size).
     Inr \<lparr>BarEntry_type = etype, BarEntry_duplicate = dup, BarEntry_name = name,
          BarEntry_offset = off, BarEntry_size = size\<rparr>)))"

text \<open>\<^verbatim>\<open>for _ in range(count)\<close>: the passes left, the position and the entries so far.\<close>

fun entries_loop :: "bytes \<Rightarrow> nat \<Rightarrow> nat \<Rightarrow> BarEntry list \<Rightarrow> exn + BarEntry list" where
  "entries_loop f 0 pos entries = Inr entries"
| "entries_loop f (Suc n) pos entries =
     (case read_entry f pos of
        Inl e \<Rightarrow> Inl e
      | Inr ent \<Rightarrow> entries_loop f n (pos + 16) (entries @ [ent]))"

definition BarFile_init :: "bytes \<Rightarrow> exn + BarFile" where
  "BarFile_init data =
     (let f = data; pos = 0;
          magic = py_slice f pos (pos + 4); pos = pos + 4
      in and_then (unpack_from_I f pos) (\<lambda>count.
         let pos = pos + 4; pos = pos + 8 in
         and_then (entries_loop f count pos []) (\<lambda>entries.
         Inr \<lparr>BarFile_entries = entries, BarFile_data = data\<rparr>)))"

text \<open>\<^verbatim>\<open>BarFile.entry\<close>: the loop over the entries, then the method.\<close>

fun entry_loop :: "bytes \<Rightarrow> BarEntry list \<Rightarrow> nat \<Rightarrow> bytes option" where
  "entry_loop d [] etype = None"
| "entry_loop d (e # es) etype =
     (if BarEntry_type e = etype
      then Some (py_slice d (BarEntry_offset e) (BarEntry_offset e + BarEntry_size e))
      else entry_loop d es etype)"

definition entry :: "BarFile \<Rightarrow> nat \<Rightarrow> bytes option" where
  "entry self etype = entry_loop (BarFile_data self) (BarFile_entries self) etype"

subsection \<open>MdlxModel and its bones\<close>

record Bone =
  Bone_index :: nat
  Bone_parent :: int
  Bone_scale :: "f32 \<times> f32 \<times> f32 \<times> f32"
  Bone_rot :: "f32 \<times> f32 \<times> f32 \<times> f32"
  Bone_trans :: "f32 \<times> f32 \<times> f32 \<times> f32"

text \<open>The tuple \<^verbatim>\<open>(read_f32(f), read_f32(f), read_f32(f), read_f32(f))\<close>, evaluated from
  left to right.\<close>

definition read_f32_tuple :: "stream \<Rightarrow> exn + ((f32 \<times> f32 \<times> f32 \<times> f32) \<times> stream)" where
  "read_f32_tuple f0 =
     and_then (read_f32 f0) (\<lambda>(a, f).
     and_then (read_f32 f) (\<lambda>(b, f).
     and_then (read_f32 f) (\<lambda>(c, f).
     and_then (read_f32 f) (\<lambda>(d, f).
     Inr ((a, b, c, d), f)))))"

definition Bone_init :: "stream \<Rightarrow> exn + Bone" where
  "Bone_init f0 =
     and_then (read_u16 f0) (\<lambda>(index, f).
     let f = snd (read 2 f) in
     and_then (read_s32 f) (\<lambda>(parent, f).
     let f = snd (read 8 f) in
     and_then (read_f32_tuple f) (\<lambda>(scale, f).
     and_then (read_f32_tuple f) (\<lambda>(rot, f).
     and_then (read_f32_tuple f) (\<lambda>(trans, f).
     Inr \<lparr>Bone_index = index, Bone_parent = parent, Bone_scale = scale,
          Bone_rot = rot, Bone_trans = trans\<rparr>)))))"

text \<open>The header fields that \<^verbatim>\<open>MdlxModel.__init__\<close> reads into local variables
  (lines 83 to 92), with the cursor \<open>pos\<close> advanced as the source advances it.\<close>

record header =
  version :: nat
  next_hdr :: nat
  bone_count :: nat
  bone_offset :: nat
  unknown_offset :: nat
  subpart_count :: nat

definition MdlxModel_header :: "bytes \<Rightarrow> exn + header" where
  "MdlxModel_header stream =
     (let pos = 0x90 in
      and_then (unpack_from_I stream pos) (\<lambda>ver.
      let pos = pos + 4; pos = pos + 8 in
      and_then (unpack_from_I stream pos) (\<lambda>nxt.
      let pos = pos + 4 in
      and_then (unpack_from_H stream pos) (\<lambda>bc.
      let pos = pos + 2; pos = pos + 2 in
      and_then (unpack_from_I stream pos) (\<lambda>bo.
      let pos = pos + 4 in
      and_then (unpack_from_I stream pos) (\<lambda>uo.
      let pos = pos + 4 in
      and_then (unpack_from_H stream pos) (\<lambda>sc.
      let pos = pos + 2; pos = pos + 2 in
      Inr \<lparr>version = ver, next_hdr = nxt, bone_count = bc, bone_offset = bo,
           unknown_offset = uo, subpart_count = sc\<rparr>)))))))"

text \<open>\<^verbatim>\<open>for i in range(bone_count)\<close> (lines 97 to 100): the passes left, the offset \<open>p\<close>
  and the bones so far. Each bone is read from a fresh stream over the slice
  \<^verbatim>\<open>fobj[p:p+0x40]\<close>.\<close>

fun bones_loop :: "bytes \<Rightarrow> nat \<Rightarrow> nat \<Rightarrow> Bone list \<Rightarrow> exn + Bone list" where
  "bones_loop fobj 0 p bones = Inr bones"
| "bones_loop fobj (Suc n) p bones =
     (let bone_bytes = py_slice fobj p (p + 0x40) in
      case Bone_init (bone_bytes, 0) of
        Inl e \<Rightarrow> Inl e
      | Inr b \<Rightarrow> bones_loop fobj n (p + 0x40) (bones @ [b]))"

record MdlxModel =
  MdlxModel_bones :: "Bone list"
  MdlxModel_meshes :: "unit list"

definition MdlxModel_init :: "bytes \<Rightarrow> exn + MdlxModel" where
  "MdlxModel_init data =
     and_then (MdlxModel_header data) (\<lambda>h.
     and_then (bones_loop data (bone_count h) (bone_offset h) []) (\<lambda>bones.
     Inr \<lparr>MdlxModel_bones = bones, MdlxModel_meshes = []\<rparr>))"

subsection \<open>MdlxFile\<close>

text \<open>\<^verbatim>\<open>MdlxFile.__init__\<close> in two parts. \<open>MdlxFile_init\<close> is the constructor from the
  contents \<open>data\<close> of the file on (lines 109 to 115); \<^verbatim>\<open>if model_data:\<close> is false for
  \<^verbatim>\<open>None\<close> and for the empty byte string. \<open>MdlxFile_init_path\<close> is the whole constructor
  (lines 106 to 115): the files are a parameter, \<open>files path\<close> being the bytes that
  \<^verbatim>\<open>open(path, 'rb')\<close> and \<^verbatim>\<open>fin.read()\<close> give, or \<open>None\<close> where they raise \<^verbatim>\<open>OSError\<close>
  (a missing or unreadable file).\<close>

record MdlxFile =
  MdlxFile_model :: MdlxModel
  MdlxFile_textures :: "unit list"

definition truthy :: "bytes option \<Rightarrow> bool" where
  "truthy v = (case v of None \<Rightarrow> False | Some bs \<Rightarrow> bs \<noteq> [])"

definition MdlxFile_init :: "bytes \<Rightarrow> exn + MdlxFile" where
  "MdlxFile_init data =
     and_then (BarFile_init data) (\<lambda>bar.
     let model_data = entry bar 4 in
     if truthy model_data
     then and_then (MdlxModel_init (the model_data)) (\<lambda>m.
          Inr \<lparr>MdlxFile_model = m, MdlxFile_textures = []\<rparr>)
     else Inl (ValueError ''No model data in MDLX''))"

definition MdlxFile_init_path :: "(string \<Rightarrow> bytes option) \<Rightarrow> string \<Rightarrow> exn + MdlxFile" where
  "MdlxFile_init_path files path =
     (case files path of
        None \<Rightarrow> Inl OSError
      | Some data \<Rightarrow> MdlxFile_init data)"

subsection \<open>Field positions\<close>

text \<open>The values that the formats denote at a position of a buffer. They are used to
  state where the decoder takes a field from; the lemmas below prove that the read
  helpers and the cursor arithmetic of the source compute exactly these.\<close>

definition u16_at :: "bytes \<Rightarrow> nat \<Rightarrow> nat" where
  "u16_at buf pos = le_nat (py_slice buf pos (pos + 2))"

definition u32_at :: "bytes \<Rightarrow> nat \<Rightarrow> nat" where
  "u32_at buf pos = le_nat (py_slice buf pos (pos + 4))"

definition s32_at :: "bytes \<Rightarrow> nat \<Rightarrow> int" where
  "s32_at buf pos = sint (word_of_nat (le_nat (py_slice buf pos (pos + 4))) :: 32 word)"

definition f32_at :: "bytes \<Rightarrow> nat \<Rightarrow> f32" where
  "f32_at buf pos = word_of_nat (le_nat (py_slice buf pos (pos + 4)))"

definition bone_at :: "bytes \<Rightarrow> nat \<Rightarrow> Bone" where
  "bone_at buf p =
     \<lparr>Bone_index = u16_at buf p,
      Bone_parent = s32_at buf (p + 4),
      Bone_scale = (f32_at buf (p + 16), f32_at buf (p + 20), f32_at buf (p + 24),
                    f32_at buf (p + 28)),
      Bone_rot = (f32_at buf (p + 32), f32_at buf (p + 36), f32_at buf (p + 40),
                  f32_at buf (p + 44)),
      Bone_trans = (f32_at buf (p + 48), f32_at buf (p + 52), f32_at buf (p + 56),
                    f32_at buf (p + 60))\<rparr>"

subsection \<open>Hand-constructed inputs\<close>

text \<open>An archive header with the magic \<^verbatim>\<open>b"BAR\0"\<close> and an entry count, and one 16-byte
  entry record: kind, duplicate id 0, four name bytes, offset and size.\<close>

definition bar_header :: "byte \<Rightarrow> bytes" where
  "bar_header n = [0x42, 0x41, 0x52, 0] @ [n, 0, 0, 0] @ replicate 8 0"

definition bar_entry :: "byte \<Rightarrow> bytes \<Rightarrow> byte \<Rightarrow> byte \<Rightarrow> bytes" where
  "bar_entry kind name off sz = [kind, 0] @ [0, 0] @ name @ [off, 0, 0, 0] @ [sz, 0, 0, 0]"

definition name_MODL :: bytes where
  "name_MODL = [0x4D, 0x4F, 0x44, 0x4C]"

text \<open>A model blob: 0x90 zero bytes, then the header in the order the decoder reads it
  (version, 8 reserved bytes, next header offset, bone count \<open>bc\<close>, 2 reserved bytes, bone
  table offset 0xB0, unknown table offset, subpart count, 2 reserved bytes), then the
  bone table.\<close>

definition model_blob :: "byte \<Rightarrow> bytes \<Rightarrow> bytes" where
  "model_blob bc table =
     replicate 0x90 0 @ [0, 0, 0, 0] @ replicate 8 0 @ [0, 0, 0, 0] @ [bc, 0] @ [0, 0]
       @ [0xB0, 0, 0, 0] @ [0, 0, 0, 0] @ [0, 0] @ [0, 0] @ table"

definition minimal_blob :: bytes where
  "minimal_blob = model_blob 1 (replicate 64 0)"

definition minimal_archive :: bytes where
  "minimal_archive = bar_header 1 @ bar_entry 4 name_MODL 32 240 @ minimal_blob"

text \<open>The same with a header of 28 bytes, which ends after the unknown table offset: the
  bone table starts at 0xAC and the blob has 236 bytes.\<close>

definition minimal_blob_28 :: bytes where
  "minimal_blob_28 =
     replicate 0x90 0 @ [0, 0, 0, 0] @ replicate 8 0 @ [0, 0, 0, 0] @ [1, 0] @ [0, 0]
       @ [0xAC, 0, 0, 0] @ [0, 0, 0, 0] @ replicate 64 0"

definition minimal_archive_28 :: bytes where
  "minimal_archive_28 = bar_header 1 @ bar_entry 4 name_MODL 32 236 @ minimal_blob_28"

text \<open>Three entries of kinds 7, 4 and 4 over five payload bytes.\<close>

definition three_entry_archive :: bytes where
  "three_entry_archive =
     bar_header 3 @ bar_entry 7 name_MODL 64 2 @ bar_entry 4 name_MODL 66 3
       @ bar_entry 4 name_MODL 64 1 @ [0xAA, 0xBB, 0xCC, 0xDD, 0xEE]"



text \<open>A bare header with 7 at offset 0x98 and 3 at offset 0x9C, zero elsewhere.\<close>

definition shifted_blob :: bytes where
  "shifted_blob = replicate 0x98 0 @ [7, 0, 0, 0] @ [3, 0, 0, 0] @ replicate 14 0"

text \<open>The minimal blob with its 28 header bytes at the offsets 0x90 format version,
  0x98 next header offset, 0x9C bone count 1, 0xA0 bone table offset 0xAC, 0xA4 unknown
  table offset, 0xA8 subpart count, followed by the zeroed record.\<close>

definition table_layout_blob :: bytes where
  "table_layout_blob =
     replicate 0x90 0 @ [0, 0, 0, 0] @ replicate 4 0 @ [0, 0, 0, 0] @ [1, 0] @ [0, 0]
       @ [0xAC, 0, 0, 0] @ [0, 0, 0, 0] @ [0, 0] @ [0, 0] @ replicate 64 0"

text \<open>One bone whose in-file index field is 5.\<close>

definition index5_blob :: bytes where
  "index5_blob = model_blob 1 ([5, 0] @ replicate 62 0)"

text \<open>Two bones with the parents \<open>-1\<close> and 1000.\<close>

definition parents_blob :: bytes where
  "parents_blob =
     model_blob 2 ([0, 0, 0, 0, 0xFF, 0xFF, 0xFF, 0xFF] @ replicate 56 0
                   @ [1, 0, 0, 0, 0xE8, 0x03, 0, 0] @ replicate 56 0)"

text \<open>Archives of 32 bytes whose only entry, of kind 4, lies past the end: offset 100
  with size 0, and offset 30 with size 10.\<close>

definition empty_range_archive :: bytes where
  "empty_range_archive = bar_header 1 @ bar_entry 4 name_MODL 100 0"

definition clamped_archive :: bytes where
  "clamped_archive = bar_header 1 @ bar_entry 4 name_MODL 30 10"

text \<open>The minimal archive with the size of its entry set to 0.\<close>

definition sizeless_archive :: bytes where
  "sizeless_archive = bar_header 1 @ bar_entry 4 name_MODL 32 0 @ minimal_blob"

definition minimal_bar :: BarFile where
  "minimal_bar =
     \<lparr>BarFile_entries =
        [\<lparr>BarEntry_type = 4, BarEntry_duplicate = 0, BarEntry_name = ''MODL'',
          BarEntry_offset = 32, BarEntry_size = 240\<rparr>],
      BarFile_data = minimal_archive\<rparr>"

definition three_entry_bar :: BarFile where
  "three_entry_bar =
     \<lparr>BarFile_entries =
        [\<lparr>BarEntry_type = 7, BarEntry_duplicate = 0, BarEntry_name = ''MODL'',
          BarEntry_offset = 64, BarEntry_size = 2\<rparr>,
         \<lparr>BarEntry_type = 4, BarEntry_duplicate = 0, BarEntry_name = ''MODL'',
          BarEntry_offset = 66, BarEntry_size = 3\<rparr>,
         \<lparr>BarEntry_type = 4, BarEntry_duplicate = 0, BarEntry_name = ''MODL'',
          BarEntry_offset = 64, BarEntry_size = 1\<rparr>],
      BarFile_data = three_entry_archive\<rparr>"

definition index5_model :: MdlxModel where
  "index5_model =
     \<lparr>MdlxModel_bones =
        [\<lparr>Bone_index = 5, Bone_parent = 0, Bone_scale = (0, 0, 0, 0),
          Bone_rot = (0, 0, 0, 0), Bone_trans = (0, 0, 0, 0)\<rparr>],
      MdlxModel_meshes = []\<rparr>"

definition blob_header :: "nat \<Rightarrow> header" where
  "blob_header bc =
     \<lparr>version = 0, next_hdr = 0, bone_count = bc, bone_offset = 0xB0,
      unknown_offset = 0, subpart_count = 0\<rparr>"

definition empty_range_bar :: BarFile where
  "empty_range_bar =
     \<lparr>BarFile_entries =
        [\<lparr>BarEntry_type = 4, BarEntry_duplicate = 0, BarEntry_name = ''MODL'',
          BarEntry_offset = 100, BarEntry_size = 0\<rparr>],
      BarFile_data = empty_range_archive\<rparr>"

definition clamped_bar :: BarFile where
  "clamped_bar =
     \<lparr>BarFile_entries =
        [\<lparr>BarEntry_type = 4, BarEntry_duplicate = 0, BarEntry_name = ''MODL'',
          BarEntry_offset = 30, BarEntry_size = 10\<rparr>],
      BarFile_data = clamped_archive\<rparr>"

definition sizeless_bar :: BarFile where
  "sizeless_bar =
     \<lparr>BarFile_entries =
        [\<lparr>BarEntry_type = 4, BarEntry_duplicate = 0, BarEntry_name = ''MODL'',
          BarEntry_offset = 32, BarEntry_size = 0\<rparr>],
      BarFile_data = sizeless_archive\<rparr>"

section \<open>Properties\<close>

subsection \<open>Sequencing and slices\<close>

lemma and_then_Inl [simp]: "and_then (Inl e) k = Inl e"
  by (simp add: and_then_def)

lemma and_then_Inr [simp]: "and_then (Inr v) k = k v"
  by (simp add: and_then_def)

lemma length_py_slice: "length (py_slice xs a b) = min (b - a) (length xs - a)"
  by (simp add: py_slice_def)

lemma py_slice_within:
  "a + k \<le> n \<Longrightarrow>
     py_slice (py_slice xs p (p + n)) a (a + k) = py_slice xs (p + a) (p + a + k)"
  by (simp add: py_slice_def drop_take min_def add.commute)

lemma py_slice_clamped:
  "length xs < a + n \<Longrightarrow> py_slice xs a (a + n) = drop a xs"
  by (simp add: py_slice_def)

subsection \<open>The read helpers\<close>

lemma read_u16_eq:
  "read_u16 (buf, pos) =
     (if pos + 2 \<le> length buf then Inr (u16_at buf pos, (buf, pos + 2))
      else Inl StructError)"
  by (auto simp: read_u16_def read_def unpack_H_def length_py_slice Let_def min_def u16_at_def)

lemma read_s32_eq:
  "read_s32 (buf, pos) =
     (if pos + 4 \<le> length buf then Inr (s32_at buf pos, (buf, pos + 4))
      else Inl StructError)"
  by (auto simp: read_s32_def read_def unpack_i_def length_py_slice Let_def min_def s32_at_def)

lemma read_f32_eq:
  "read_f32 (buf, pos) =
     (if pos + 4 \<le> length buf then Inr (f32_at buf pos, (buf, pos + 4))
      else Inl StructError)"
  by (auto simp: read_f32_def read_def unpack_f_def length_py_slice Let_def min_def f32_at_def)

lemma read_skip_eq: "snd (read n (buf, pos)) = (buf, pos + min n (length buf - pos))"
  by (simp add: read_def length_py_slice Let_def)

lemma read_f32_tuple_eq:
  "read_f32_tuple (buf, pos) =
     (if pos + 16 \<le> length buf
      then Inr ((f32_at buf pos, f32_at buf (pos + 4), f32_at buf (pos + 8),
                 f32_at buf (pos + 12)), (buf, pos + 16))
      else Inl StructError)"
  by (simp add: read_f32_tuple_def read_f32_eq add.assoc)

subsection \<open>One bone record\<close>

text \<open>A bone is decoded exactly when its stream holds 64 bytes; a shorter stream raises
  \<^verbatim>\<open>struct.error\<close> at the first read that comes up short.\<close>

lemma Bone_init_eq:
  "Bone_init (bs, 0) = (if 64 \<le> length bs then Inr (bone_at bs 0) else Inl StructError)"
proof (cases "64 \<le> length bs")
  case True
  then show ?thesis
    by (simp add: Bone_init_def read_u16_eq read_s32_eq read_skip_eq read_f32_tuple_eq
          bone_at_def del: add_2_eq_Suc add_2_eq_Suc')
next
  case False
  then show ?thesis
    by (auto simp: Bone_init_def read_u16_eq read_s32_eq read_skip_eq read_f32_tuple_eq min_def)
qed

lemma u16_at_slice:
  "a + 2 \<le> n \<Longrightarrow> u16_at (py_slice xs p (p + n)) a = u16_at xs (p + a)"
  by (simp only: u16_at_def py_slice_within)

lemma s32_at_slice:
  "a + 4 \<le> n \<Longrightarrow> s32_at (py_slice xs p (p + n)) a = s32_at xs (p + a)"
  by (simp only: s32_at_def py_slice_within)

lemma f32_at_slice:
  "a + 4 \<le> n \<Longrightarrow> f32_at (py_slice xs p (p + n)) a = f32_at xs (p + a)"
  by (simp only: f32_at_def py_slice_within)

lemma bone_at_slice: "bone_at (py_slice fobj p (p + 64)) 0 = bone_at fobj p"
  by (simp add: bone_at_def u16_at_slice s32_at_slice f32_at_slice)

subsection \<open>The bone table and the model header\<close>

lemma bones_loop_step:
  "bones_loop fobj (Suc n) p acc =
     (if p + 64 \<le> length fobj then bones_loop fobj n (p + 64) (acc @ [bone_at fobj p])
      else Inl StructError)"
  by (auto simp: Let_def Bone_init_eq length_py_slice bone_at_slice)

lemma bones_loop_eq:
  "bones_loop fobj n p acc =
     (if n = 0 \<or> p + 64 * n \<le> length fobj
      then Inr (acc @ map (\<lambda>i. bone_at fobj (p + 64 * i)) [0..<n])
      else Inl StructError)"
proof (induction n arbitrary: p acc)
  case 0
  show ?case by simp
next
  case (Suc n)
  have shift: "map (\<lambda>i. bone_at fobj (p + 64 * i)) [0..<Suc n] =
      bone_at fobj p # map (\<lambda>i. bone_at fobj (p + 64 + 64 * i)) [0..<n]"
    by (simp only: upt_conv_Cons [of 0 "Suc n"] map_Suc_upt [symmetric] zero_less_Suc if_True
          list.map map_map o_def) (simp add: algebra_simps)
  show ?case
    unfolding bones_loop_step Suc.IH shift by auto
qed

lemma MdlxModel_header_eq:
  "MdlxModel_header blob =
     (if 0xAE \<le> length blob
      then Inr \<lparr>version = u32_at blob 0x90, next_hdr = u32_at blob 0x9C,
               bone_count = u16_at blob 0xA0, bone_offset = u32_at blob 0xA4,
               unknown_offset = u32_at blob 0xA8, subpart_count = u16_at blob 0xAC\<rparr>
      else Inl StructError)"
  by (simp add: MdlxModel_header_def unpack_from_I_def unpack_from_H_def u32_at_def u16_at_def
        Let_def)

lemma MdlxModel_init_eq:
  "MdlxModel_init blob =
     and_then (MdlxModel_header blob) (\<lambda>h.
       if bone_count h = 0 \<or> bone_offset h + 64 * bone_count h \<le> length blob
       then Inr \<lparr>MdlxModel_bones =
                   map (\<lambda>i. bone_at blob (bone_offset h + 64 * i)) [0..<bone_count h],
                 MdlxModel_meshes = []\<rparr>
       else Inl StructError)"
  by (auto simp: MdlxModel_init_def bones_loop_eq and_then_def split: sum.splits)

lemma MdlxModel_init_exn: "MdlxModel_init blob = Inl e \<Longrightarrow> e = StructError"
  by (auto simp: MdlxModel_init_eq MdlxModel_header_eq split: if_splits)

subsection \<open>The archive\<close>

lemma read_entry_exn:
  "read_entry f pos = Inl e \<Longrightarrow> e = StructError \<or> e = UnicodeDecodeError"
  by (auto simp: read_entry_def unpack_from_HH_def unpack_from_II_def decode_ascii_def Let_def
      split: if_splits)

lemma entries_loop_exn:
  "entries_loop f n pos acc = Inl e \<Longrightarrow> e = StructError \<or> e = UnicodeDecodeError"
  by (induction n arbitrary: pos acc) (auto split: sum.splits dest: read_entry_exn)

lemma BarFile_init_exn:
  "BarFile_init data = Inl e \<Longrightarrow> e = StructError \<or> e = UnicodeDecodeError"
  by (auto simp: BarFile_init_def unpack_from_I_def Let_def and_then_def
      split: if_splits sum.splits dest: entries_loop_exn)

lemma BarFile_init_data: "BarFile_init data = Inr bar \<Longrightarrow> BarFile_data bar = data"
  by (auto simp: BarFile_init_def unpack_from_I_def Let_def and_then_def
      split: if_splits sum.splits)

lemma entry_loop_find:
  "entry_loop d es k =
     map_option (\<lambda>e. py_slice d (BarEntry_offset e) (BarEntry_offset e + BarEntry_size e))
       (find (\<lambda>e. BarEntry_type e = k) es)"
  by (induction es) simp_all

lemma entry_find:
  "entry bar k =
     map_option
       (\<lambda>e. py_slice (BarFile_data bar) (BarEntry_offset e) (BarEntry_offset e + BarEntry_size e))
       (find (\<lambda>e. BarEntry_type e = k) (BarFile_entries bar))"
  by (simp add: entry_def entry_loop_find)

lemma take_drop_nth_map:
  "a + n \<le> length xs \<Longrightarrow> take n (drop a xs) = map (\<lambda>j. xs ! (a + j)) [0..<n]"
  by (rule nth_equalityI) simp_all

lemma MdlxFile_init_empty:
  "BarFile_init data = Inr bar \<Longrightarrow> entry bar 4 = Some [] \<Longrightarrow>
   MdlxFile_init data = Inl (ValueError ''No model data in MDLX'')"
  by (simp add: MdlxFile_init_def truthy_def)

lemma MdlxFile_init_exn:
  "MdlxFile_init data = Inl e \<Longrightarrow>
   e = StructError \<or> e = UnicodeDecodeError \<or> e = ValueError ''No model data in MDLX''"
  by (auto simp: MdlxFile_init_def and_then_def Let_def
      split: sum.splits if_splits dest: BarFile_init_exn MdlxModel_init_exn)

lemma MdlxFile_init_path_read:
  "files path = Some data \<Longrightarrow> MdlxFile_init_path files path = MdlxFile_init data"
  by (simp add: MdlxFile_init_path_def)

lemma MdlxFile_init_path_unreadable:
  "files path = None \<Longrightarrow> MdlxFile_init_path files path = Inl OSError"
  by (simp add: MdlxFile_init_path_def)

subsection \<open>Values of singles\<close>

lemma f32_value_one: "f32_value 0x3F800000 = Some 1"
proof -
  have e: "unat (drop_bit 23 (0x3F800000 :: 32 word) AND 0xFF) = 127"
    by code_simp
  have m: "unat ((0x3F800000 :: 32 word) AND 0x7FFFFF) = 0"
    by code_simp
  have s: "\<not> bit (0x3F800000 :: 32 word) 31"
    by code_simp
  show ?thesis
    unfolding f32_value_def Let_def e m using s by simp
qed

lemma f32_value_minus_two: "f32_value 0xC0000000 = Some (- 2)"
proof -
  have e: "unat (drop_bit 23 (0xC0000000 :: 32 word) AND 0xFF) = 128"
    by code_simp
  have m: "unat ((0xC0000000 :: 32 word) AND 0x7FFFFF) = 0"
    by code_simp
  have s: "bit (0xC0000000 :: 32 word) 31"
    by code_simp
  show ?thesis
    unfolding f32_value_def Let_def e m using s by simp
qed

lemma f32_value_negative_zero: "f32_value 0x80000000 = Some 0"
proof -
  have m: "unat ((0x80000000 :: 32 word) AND 0x7FFFFF) = 0"
    by code_simp
  have e: "unat (drop_bit 23 (0x80000000 :: 32 word) AND 0xFF) = 0"
    by code_simp
  show ?thesis
    unfolding f32_value_def Let_def e m by simp
qed

lemma f32_value_infinity: "f32_value 0x7F800000 = None"
proof -
  have e: "unat (drop_bit 23 (0x7F800000 :: 32 word) AND 0xFF) = 255"
    by code_simp
  show ?thesis
    unfolding f32_value_def Let_def e by simp
qed

section \<open>The claims\<close>

text \<open>C1: for the hand-constructed minimal input (the archive header with the magic
  \<^verbatim>\<open>b"BAR\0"\<close> and entry count 1, one entry with kind 4, duplicate id 0, name
  \<^verbatim>\<open>b"MODL"\<close>, offset 32 and size 240, then the model blob of 0x90 zero bytes, a header
  with bone count 1 and the bone table offset pointing at one zeroed 64-byte record),
  parsing the archive, looking up the entry of kind 4 and decoding it as a model yields
  exactly one bone, whose parent is 0 and whose scale, rotation and translation
  components are all the single 0.0.\<close>

theorem minimal_archive_decodes:
  "BarFile_init minimal_archive = Inr minimal_bar
   \<and> BarFile_entries minimal_bar =
        [\<lparr>BarEntry_type = 4, BarEntry_duplicate = 0, BarEntry_name = ''MODL'',
          BarEntry_offset = 32, BarEntry_size = 240\<rparr>]
   \<and> entry minimal_bar 4 = Some minimal_blob
   \<and> MdlxModel_init minimal_blob =
        Inr \<lparr>MdlxModel_bones =
               [\<lparr>Bone_index = 0, Bone_parent = 0, Bone_scale = (0, 0, 0, 0),
                 Bone_rot = (0, 0, 0, 0), Bone_trans = (0, 0, 0, 0)\<rparr>],
             MdlxModel_meshes = []\<rparr>
   \<and> MdlxFile_init minimal_archive =
        Inr \<lparr>MdlxFile_model =
               \<lparr>MdlxModel_bones =
                  [\<lparr>Bone_index = 0, Bone_parent = 0, Bone_scale = (0, 0, 0, 0),
                    Bone_rot = (0, 0, 0, 0), Bone_trans = (0, 0, 0, 0)\<rparr>],
                MdlxModel_meshes = []\<rparr>,
             MdlxFile_textures = []\<rparr>
   \<and> MdlxFile_init minimal_archive_28 =
        Inr \<lparr>MdlxFile_model =
               \<lparr>MdlxModel_bones =
                  [\<lparr>Bone_index = 0, Bone_parent = 0, Bone_scale = (0, 0, 0, 0),
                    Bone_rot = (0, 0, 0, 0), Bone_trans = (0, 0, 0, 0)\<rparr>],
                MdlxModel_meshes = []\<rparr>,
             MdlxFile_textures = []\<rparr>
   \<and> f32_value 0 = Some 0"
proof -
  have parse: "BarFile_init minimal_archive = Inr minimal_bar"
    by code_simp
  have entries: "BarFile_entries minimal_bar =
        [\<lparr>BarEntry_type = 4, BarEntry_duplicate = 0, BarEntry_name = ''MODL'',
          BarEntry_offset = 32, BarEntry_size = 240\<rparr>]"
    by (simp add: minimal_bar_def)
  have lookup: "entry minimal_bar 4 = Some minimal_blob"
    by code_simp
  have decode: "MdlxModel_init minimal_blob =
        Inr \<lparr>MdlxModel_bones =
               [\<lparr>Bone_index = 0, Bone_parent = 0, Bone_scale = (0, 0, 0, 0),
                 Bone_rot = (0, 0, 0, 0), Bone_trans = (0, 0, 0, 0)\<rparr>],
             MdlxModel_meshes = []\<rparr>"
    by code_simp
  have pipeline: "MdlxFile_init minimal_archive =
        Inr \<lparr>MdlxFile_model =
               \<lparr>MdlxModel_bones =
                  [\<lparr>Bone_index = 0, Bone_parent = 0, Bone_scale = (0, 0, 0, 0),
                    Bone_rot = (0, 0, 0, 0), Bone_trans = (0, 0, 0, 0)\<rparr>],
                MdlxModel_meshes = []\<rparr>,
             MdlxFile_textures = []\<rparr>"
    by code_simp
  have pipeline28: "MdlxFile_init minimal_archive_28 =
        Inr \<lparr>MdlxFile_model =
               \<lparr>MdlxModel_bones =
                  [\<lparr>Bone_index = 0, Bone_parent = 0, Bone_scale = (0, 0, 0, 0),
                    Bone_rot = (0, 0, 0, 0), Bone_trans = (0, 0, 0, 0)\<rparr>],
                MdlxModel_meshes = []\<rparr>,
             MdlxFile_textures = []\<rparr>"
    by code_simp
  have zero: "f32_value 0 = Some 0"
    by (simp add: f32_value_def)
  from parse entries lookup decode pipeline pipeline28 zero show ?thesis
    by (intro conjI)
qed

text \<open>C2: for every parsed archive in which each entry has offset + size within the
  buffer, the lookup by kind returns exactly the bytes at the positions offset, ...,
  offset + size - 1 of the buffer for the first entry, in table order, whose kind is the
  requested one, whatever entries come before and after it; it returns nothing when
  no entry has the requested kind.\<close>

theorem entry_returns_first_match:
  assumes "BarFile_init data = Inr bar"
    and "\<forall>e \<in> set (BarFile_entries bar). BarEntry_offset e + BarEntry_size e \<le> length data"
  shows "entry bar k =
     (case find (\<lambda>e. BarEntry_type e = k) (BarFile_entries bar) of
        None \<Rightarrow> None
      | Some e \<Rightarrow> Some (map (\<lambda>n. data ! (BarEntry_offset e + n)) [0..<BarEntry_size e]))"
proof (cases "find (\<lambda>e. BarEntry_type e = k) (BarFile_entries bar)")
  case None
  then show ?thesis by (simp add: entry_find)
next
  case (Some e)
  then have "e \<in> set (BarFile_entries bar)"
    by (auto simp: find_Some_iff)
  with assms(2) have fits: "BarEntry_offset e + BarEntry_size e \<le> length data"
    by blast
  have "py_slice data (BarEntry_offset e) (BarEntry_offset e + BarEntry_size e) =
      map (\<lambda>n. data ! (BarEntry_offset e + n)) [0..<BarEntry_size e]"
    using take_drop_nth_map [OF fits] by (simp add: py_slice_def)
  with Some show ?thesis
    by (simp add: entry_find BarFile_init_data [OF assms(1)])
qed

theorem entry_returns_first_match_witness:
  "BarFile_init three_entry_archive = Inr three_entry_bar
   \<and> entry three_entry_bar 4 = Some [0xCC, 0xDD, 0xEE]
   \<and> entry three_entry_bar 9 = None"
proof -
  have parse: "BarFile_init three_entry_archive = Inr three_entry_bar"
    by code_simp
  have fits: "\<forall>e \<in> set (BarFile_entries three_entry_bar).
      BarEntry_offset e + BarEntry_size e \<le> length three_entry_archive"
    by code_simp
  have found: "(case find (\<lambda>e. BarEntry_type e = 4) (BarFile_entries three_entry_bar) of
        None \<Rightarrow> None
      | Some e \<Rightarrow> Some (map (\<lambda>n. three_entry_archive ! (BarEntry_offset e + n))
          [0..<BarEntry_size e])) = Some [0xCC, 0xDD, 0xEE]"
    by code_simp
  have missing: "(case find (\<lambda>e. BarEntry_type e = 9) (BarFile_entries three_entry_bar) of
        None \<Rightarrow> None
      | Some e \<Rightarrow> Some (map (\<lambda>n. three_entry_archive ! (BarEntry_offset e + n))
          [0..<BarEntry_size e])) = None"
    by code_simp
  from entry_returns_first_match [OF parse fits, of 4]
    entry_returns_first_match [OF parse fits, of 9] found missing parse
  show ?thesis by simp
qed




text \<open>C5, as the code has it: within a model blob the decoder reads the next header offset
  as a 32-bit little-endian value at byte offset 0x9C and the bone count as a 16-bit
  little-endian value at byte offset 0xA0, and the bone count it reads is the number of
  bones of every model it decodes.\<close>

theorem header_field_offsets:
  assumes "MdlxModel_header blob = Inr h"
  shows "next_hdr h = le_nat (py_slice blob 0x9C 0xA0)
     \<and> bone_count h = le_nat (py_slice blob 0xA0 0xA2)
     \<and> (\<forall>m. MdlxModel_init blob = Inr m \<longrightarrow>
          length (MdlxModel_bones m) = le_nat (py_slice blob 0xA0 0xA2))"
  using assms
  by (auto simp: MdlxModel_init_eq MdlxModel_header_eq u32_at_def u16_at_def split: if_splits)

theorem header_field_offsets_witness:
  "MdlxModel_header minimal_blob = Inr (blob_header 1)
   \<and> next_hdr (blob_header 1) = le_nat (py_slice minimal_blob 0x9C 0xA0)
   \<and> bone_count (blob_header 1) = le_nat (py_slice minimal_blob 0xA0 0xA2)"
proof -
  have hdr: "MdlxModel_header minimal_blob = Inr (blob_header 1)"
    by code_simp
  from hdr header_field_offsets [OF hdr] show ?thesis
    by simp
qed

text \<open>C5 as stated fails: \<open>shifted_blob\<close> holds 7 at offset 0x98 and 3 at offset 0x9C; the
  decoder reads the next header offset 3 and the bone count 0, and decodes no bone.\<close>

theorem header_field_offsets_counterexample:
  "MdlxModel_header shifted_blob =
     Inr \<lparr>version = 0, next_hdr = 3, bone_count = 0, bone_offset = 0,
          unknown_offset = 0, subpart_count = 0\<rparr>
   \<and> le_nat (py_slice shifted_blob 0x98 0x9C) = 7
   \<and> le_nat (py_slice shifted_blob 0x9C 0x9E) = 3
   \<and> MdlxModel_init shifted_blob = Inr \<lparr>MdlxModel_bones = [], MdlxModel_meshes = []\<rparr>"
  by code_simp

text \<open>A blob that carries the bone count 1 and the bone table offset at the offsets
  0x9C and 0xA0 is read as 172 bones from offset 0, and the fourth record raises
  \<^verbatim>\<open>struct.error\<close>.\<close>

lemma table_layout_blob_raises:
  "MdlxModel_header table_layout_blob =
     Inr \<lparr>version = 0, next_hdr = 1, bone_count = 172, bone_offset = 0,
          unknown_offset = 0, subpart_count = 0\<rparr>
   \<and> MdlxModel_init table_layout_blob = Inl StructError"
  by code_simp

text \<open>C6, as the code has it: for every successfully decoded model and every bone in it,
  the bone stands at the position of its record in the bone table, and its index field
  is the 16-bit little-endian value of the first two bytes of that record, whatever
  they are.\<close>

theorem bone_index_is_in_file_field:
  assumes "MdlxModel_header blob = Inr h"
    and "MdlxModel_init blob = Inr m"
    and "i < length (MdlxModel_bones m)"
  shows "Bone_index (MdlxModel_bones m ! i) =
     le_nat (py_slice blob (bone_offset h + 64 * i) (bone_offset h + 64 * i + 2))"
proof -
  from assms(2) have m: "m = \<lparr>MdlxModel_bones =
      map (\<lambda>i. bone_at blob (bone_offset h + 64 * i)) [0..<bone_count h], MdlxModel_meshes = []\<rparr>"
    unfolding MdlxModel_init_eq assms(1) and_then_Inr by (simp split: if_splits)
  with assms(3) have "i < bone_count h"
    by simp
  with m show ?thesis
    by (simp add: bone_at_def u16_at_def)
qed

theorem bone_index_is_in_file_field_witness:
  "MdlxModel_header index5_blob = Inr (blob_header 1)
   \<and> MdlxModel_init index5_blob = Inr index5_model
   \<and> 0 < length (MdlxModel_bones index5_model)
   \<and> Bone_index (MdlxModel_bones index5_model ! 0) = 5"
proof -
  have hdr: "MdlxModel_header index5_blob = Inr (blob_header 1)"
    by code_simp
  have dec: "MdlxModel_init index5_blob = Inr index5_model"
    by code_simp
  have len: "0 < length (MdlxModel_bones index5_model)"
    by (simp add: index5_model_def)
  have val: "le_nat (py_slice index5_blob (bone_offset (blob_header 1) + 64 * 0)
      (bone_offset (blob_header 1) + 64 * 0 + 2)) = 5"
    by code_simp
  from hdr dec len val bone_index_is_in_file_field [OF hdr dec len] show ?thesis
    by simp
qed

text \<open>C6 as stated fails: the only bone of \<open>index5_blob\<close> stands at position 0 and has the
  index 5 of its record.\<close>

theorem bone_index_counterexample:
  "MdlxModel_init index5_blob = Inr index5_model
   \<and> Bone_index (MdlxModel_bones index5_model ! 0) \<noteq> 0"
  by code_simp

text \<open>C7: for every model blob with a readable header and a bone table that lies within
  the blob, the decode succeeds with as many bones as the header counts, and the parent
  of each bone is the signed 32-bit little-endian value of bytes 4 to 7 of its record,
  negative, out of range or not: nothing is validated or resolved.\<close>

theorem parent_passed_through:
  assumes "MdlxModel_header blob = Inr h"
    and "bone_offset h + bone_count h * 64 \<le> length blob"
  shows "\<exists>m. MdlxModel_init blob = Inr m
     \<and> length (MdlxModel_bones m) = bone_count h
     \<and> (\<forall>i < bone_count h. Bone_parent (MdlxModel_bones m ! i) =
          sint (word_of_nat (le_nat (py_slice blob (bone_offset h + 64 * i + 4)
                 (bone_offset h + 64 * i + 8))) :: 32 word))"
proof -
  let ?m = "\<lparr>MdlxModel_bones =
      map (\<lambda>i. bone_at blob (bone_offset h + 64 * i)) [0..<bone_count h], MdlxModel_meshes = []\<rparr>"
  from assms(2) have fits: "bone_count h = 0 \<or> bone_offset h + 64 * bone_count h \<le> length blob"
    by simp
  have dec: "MdlxModel_init blob = Inr ?m"
    unfolding MdlxModel_init_eq assms(1) and_then_Inr using fits by (simp only: if_True)
  have len: "length (MdlxModel_bones ?m) = bone_count h"
    by simp
  have par: "Bone_parent (MdlxModel_bones ?m ! i) =
      sint (word_of_nat (le_nat (py_slice blob (bone_offset h + 64 * i + 4)
        (bone_offset h + 64 * i + 8))) :: 32 word)" if "i < bone_count h" for i
    using that by (simp add: bone_at_def s32_at_def add.assoc)
  from dec len par show ?thesis
    by blast
qed

theorem parent_passed_through_witness:
  "MdlxModel_header parents_blob = Inr (blob_header 2)
   \<and> bone_offset (blob_header 2) + bone_count (blob_header 2) * 64 \<le> length parents_blob
   \<and> (\<exists>m. MdlxModel_init parents_blob = Inr m
        \<and> length (MdlxModel_bones m) = 2
        \<and> Bone_parent (MdlxModel_bones m ! 0) = - 1
        \<and> Bone_parent (MdlxModel_bones m ! 1) = 1000)"
proof -
  have hdr: "MdlxModel_header parents_blob = Inr (blob_header 2)"
    by code_simp
  have fits: "bone_offset (blob_header 2) + bone_count (blob_header 2) * 64
      \<le> length parents_blob"
    by (simp add: parents_blob_def model_blob_def blob_header_def)
  have p0: "sint (word_of_nat (le_nat (py_slice parents_blob (176 + 64 * 0 + 4)
      (176 + 64 * 0 + 8))) :: 32 word) = - 1"
    by (simp add: parents_blob_def model_blob_def py_slice_def)
  have p1: "sint (word_of_nat (le_nat (py_slice parents_blob (176 + 64 * 1 + 4)
      (176 + 64 * 1 + 8))) :: 32 word) = 1000"
    by (simp add: parents_blob_def model_blob_def py_slice_def)
  from parent_passed_through [OF hdr fits] obtain m
    where dec: "MdlxModel_init parents_blob = Inr m"
      and len: "length (MdlxModel_bones m) = bone_count (blob_header 2)"
      and par: "\<And>i. i < bone_count (blob_header 2) \<Longrightarrow>
        Bone_parent (MdlxModel_bones m ! i) =
          sint (word_of_nat (le_nat (py_slice parents_blob
            (bone_offset (blob_header 2) + 64 * i + 4)
            (bone_offset (blob_header 2) + 64 * i + 8))) :: 32 word)"
    by blast
  have two: "bone_count (blob_header 2) = 2" and off: "bone_offset (blob_header 2) = 176"
    by (simp_all add: blob_header_def)
  have b0: "Bone_parent (MdlxModel_bones m ! 0) = - 1"
    using par [of 0] unfolding two off p0 by simp
  have b1: "Bone_parent (MdlxModel_bones m ! 1) = 1000"
    using par [of 1] unfolding two off p1 by simp
  from len have len2: "length (MdlxModel_bones m) = 2"
    unfolding two .
  show ?thesis
    by (intro conjI exI [of _ m]) (rule hdr fits dec len2 b0 b1)+
qed

text \<open>C9, as the code has it: for every parsed archive whose first entry of the requested
  kind has offset + size beyond the length of the buffer, the lookup raises nothing and
  returns the buffer from the offset to its end, which is empty when the offset is at
  or past the end, is never longer than the declared size, and is shorter than the
  declared size whenever that size is positive.\<close>

theorem entry_clamps_to_buffer_end:
  assumes "BarFile_init data = Inr bar"
    and "find (\<lambda>e. BarEntry_type e = k) (BarFile_entries bar) = Some e"
    and "length data < BarEntry_offset e + BarEntry_size e"
  shows "entry bar k = Some (drop (BarEntry_offset e) data)
     \<and> length (drop (BarEntry_offset e) data) = length data - BarEntry_offset e
     \<and> length (drop (BarEntry_offset e) data) \<le> BarEntry_size e
     \<and> (0 < BarEntry_size e \<longrightarrow> length (drop (BarEntry_offset e) data) < BarEntry_size e)"
  using assms
  by (auto simp: entry_find BarFile_init_data py_slice_clamped)

theorem entry_clamps_to_buffer_end_witness:
  "BarFile_init clamped_archive = Inr clamped_bar
   \<and> entry clamped_bar 4 = Some [0, 0]"
proof -
  have parse: "BarFile_init clamped_archive = Inr clamped_bar"
    by code_simp
  have first: "find (\<lambda>e. BarEntry_type e = 4) (BarFile_entries clamped_bar) =
      Some \<lparr>BarEntry_type = 4, BarEntry_duplicate = 0, BarEntry_name = ''MODL'',
            BarEntry_offset = 30, BarEntry_size = 10\<rparr>"
    by code_simp
  have past: "length clamped_archive
      < BarEntry_offset \<lparr>BarEntry_type = 4, BarEntry_duplicate = 0, BarEntry_name = ''MODL'',
            BarEntry_offset = 30, BarEntry_size = 10\<rparr>
        + BarEntry_size \<lparr>BarEntry_type = 4, BarEntry_duplicate = 0, BarEntry_name = ''MODL'',
            BarEntry_offset = 30, BarEntry_size = 10\<rparr>"
    by code_simp
  have rest: "drop 30 clamped_archive = [0, 0]"
    by code_simp
  from parse rest entry_clamps_to_buffer_end [OF parse first past] show ?thesis
    by simp
qed

text \<open>C9 as stated fails for a declared size of 0: the only entry of
  \<open>empty_range_archive\<close> has offset 100 and size 0 in a buffer of 32 bytes; the lookup
  returns the empty byte string, which is not shorter than the declared size.\<close>

theorem entry_clamps_counterexample:
  "BarFile_init empty_range_archive = Inr empty_range_bar
   \<and> BarEntry_type (BarFile_entries empty_range_bar ! 0) = 4
   \<and> length empty_range_archive
       < BarEntry_offset (BarFile_entries empty_range_bar ! 0)
         + BarEntry_size (BarFile_entries empty_range_bar ! 0)
   \<and> entry empty_range_bar 4 = Some []
   \<and> \<not> length ([] :: bytes) < BarEntry_size (BarFile_entries empty_range_bar ! 0)"
  by code_simp

text \<open>C10: if the first entry of kind 4 of a parsed archive has size 0, the lookup
  returns the empty byte string and the pipeline raises the \<^verbatim>\<open>ValueError\<close> "No model data
  in MDLX", although an entry of kind 4 exists; the model decoder is not called on the
  empty blob, where it would raise \<^verbatim>\<open>struct.error\<close>.\<close>

theorem empty_model_entry_is_no_model:
  assumes "BarFile_init data = Inr bar"
    and "find (\<lambda>e. BarEntry_type e = 4) (BarFile_entries bar) = Some e"
    and "BarEntry_size e = 0"
  shows "entry bar 4 = Some []
     \<and> MdlxFile_init data = Inl (ValueError ''No model data in MDLX'')
     \<and> MdlxModel_init [] = Inl StructError"
proof -
  from assms(2,3) have empty: "entry bar 4 = Some []"
    by (simp add: entry_find py_slice_def)
  have "MdlxModel_init [] = Inl StructError"
    by (simp add: MdlxModel_init_eq MdlxModel_header_eq)
  with empty MdlxFile_init_empty [OF assms(1) empty] show ?thesis
    by simp
qed

theorem empty_model_entry_is_no_model_witness:
  "BarFile_init sizeless_archive = Inr sizeless_bar
   \<and> MdlxFile_init sizeless_archive = Inl (ValueError ''No model data in MDLX'')"
proof -
  have parse: "BarFile_init sizeless_archive = Inr sizeless_bar"
    by code_simp
  have first: "find (\<lambda>e. BarEntry_type e = 4) (BarFile_entries sizeless_bar) =
      Some \<lparr>BarEntry_type = 4, BarEntry_duplicate = 0, BarEntry_name = ''MODL'',
            BarEntry_offset = 32, BarEntry_size = 0\<rparr>"
    by code_simp
  have zero: "BarEntry_size \<lparr>BarEntry_type = 4, BarEntry_duplicate = 0,
      BarEntry_name = ''MODL'', BarEntry_offset = 32, BarEntry_size = 0\<rparr> = 0"
    by simp
  from parse empty_model_entry_is_no_model [OF parse first zero] show ?thesis
    by simp
qed

end
